theory Spec2Isabelle
  imports Complex_Main "HOL-Library.AList"
begin

section \<open>Python strings\<close>

text \<open>
  A Python \<open>str\<close> is a sequence of code points. The model covers the code points
  U+0000 to U+00FF: a \<^typ>\<open>char\<close> is read as the code point of the same number, so
  \<open>CHR 0xE9\<close> is the letter e with acute accent. Every character of the rule table of
  \<open>intent_detector.py\<close> lies in this range. The tables below are those of
  \<open>str.isspace\<close>, \<open>str.lower\<close>, \<open>str.upper\<close> and of the classes
  \<open>\s\<close>, \<open>\w\<close>, \<open>\d\<close> of the \<open>re\<close> module on this range.
\<close>

definition cp :: "char \<Rightarrow> nat" where
  "cp c = of_char c"

definition isspace :: "char \<Rightarrow> bool" where
  "isspace c = (let n = cp c in (9 \<le> n \<and> n \<le> 13) \<or> (28 \<le> n \<and> n \<le> 32) \<or> n = 133 \<or> n = 160)"

definition isdigit :: "char \<Rightarrow> bool" where
  "isdigit c = (let n = cp c in 48 \<le> n \<and> n \<le> 57)"

definition isword :: "char \<Rightarrow> bool" where
  "isword c = (let n = cp c in
     (48 \<le> n \<and> n \<le> 57) \<or> (65 \<le> n \<and> n \<le> 90) \<or> n = 95 \<or> (97 \<le> n \<and> n \<le> 122) \<or>
     n = 170 \<or> n = 178 \<or> n = 179 \<or> n = 181 \<or> n = 185 \<or> n = 186 \<or> (188 \<le> n \<and> n \<le> 190) \<or>
     (192 \<le> n \<and> n \<le> 214) \<or> (216 \<le> n \<and> n \<le> 246) \<or> 248 \<le> n)"

definition lower_char :: "char \<Rightarrow> char" where
  "lower_char c = (let n = cp c in
     if (65 \<le> n \<and> n \<le> 90) \<or> (192 \<le> n \<and> n \<le> 214) \<or> (216 \<le> n \<and> n \<le> 222)
     then char_of (n + 32) else c)"

definition lower :: "string \<Rightarrow> string" where
  "lower s = map lower_char s"

text \<open>\<open>str.strip()\<close>: leading and trailing whitespace removed.\<close>

definition lstrip :: "string \<Rightarrow> string" where
  "lstrip s = dropWhile isspace s"

definition rstrip :: "string \<Rightarrow> string" where
  "rstrip s = rev (dropWhile isspace (rev s))"

definition strip :: "string \<Rightarrow> string" where
  "strip s = rstrip (lstrip s)"

text \<open>\<open>str.split()\<close> without a separator: the maximal runs of non-whitespace.\<close>

fun split_ws :: "string \<Rightarrow> string \<Rightarrow> string list" where
  "split_ws cur [] = (if cur = [] then [] else [cur])"
| "split_ws cur (c # cs) =
     (if isspace c then (if cur = [] then split_ws [] cs else cur # split_ws [] cs)
      else split_ws (cur @ [c]) cs)"

definition split :: "string \<Rightarrow> string list" where
  "split s = split_ws [] s"

text \<open>\<open>sub in s\<close> on strings: \<open>sub\<close> occurs in \<open>s\<close> as a contiguous block.\<close>

fun startswith :: "string \<Rightarrow> string \<Rightarrow> bool" where
  "startswith s [] = True"
| "startswith [] (p # ps) = False"
| "startswith (c # cs) (p # ps) = (c = p \<and> startswith cs ps)"

fun contains :: "string \<Rightarrow> string \<Rightarrow> bool" where
  "contains [] sub = (sub = [])"
| "contains (c # cs) sub = (startswith (c # cs) sub \<or> contains cs sub)"

section \<open>Regular expressions of the \<open>re\<close> module\<close>

text \<open>
  The patterns of the rule table are written as syntax trees. A position of the matcher
  is the character before it (none at the start of the text) and the text that remains.
  \<open>ends r p\<close> lists the positions at which a match of \<open>r\<close> that starts at \<open>p\<close> can
  end; \<open>re.search\<close> only asks whether some start has a match, so the order in which
  the library tries alternatives does not matter. All patterns are used with
  \<open>re.IGNORECASE\<close> and without \<open>re.MULTILINE\<close> or \<open>re.DOTALL\<close>.
\<close>

datatype citem = CChar char | CSpace

datatype atom =
    ADot                    \<comment> \<open>\<open>.\<close>: any character but the newline\<close>
  | ADigit                  \<comment> \<open>\<open>\d\<close>\<close>
  | AClass "citem list"     \<comment> \<open>\<open>[...]\<close>\<close>

datatype rx =
    Str string              \<comment> \<open>a run of literal characters\<close>
  | One atom
  | Rep nat atom            \<comment> \<open>\<open>a{n,}\<close>; \<open>a*\<close> is \<open>Rep 0 a\<close>\<close>
  | WordB                   \<comment> \<open>\<open>\b\<close>\<close>
  | Bol                     \<comment> \<open>\<open>^\<close>\<close>
  | Eol                     \<comment> \<open>\<open>$\<close>\<close>
  | Seq rx rx
  | Alt rx rx
  | Opt rx                  \<comment> \<open>\<open>r?\<close>\<close>

type_synonym pos = "char option \<times> string"

fun citem_match :: "citem \<Rightarrow> char \<Rightarrow> bool" where
  "citem_match (CChar a) c = (lower_char c = lower_char a)"
| "citem_match CSpace c = isspace c"

fun atom_match :: "atom \<Rightarrow> char \<Rightarrow> bool" where
  "atom_match ADot c = (cp c \<noteq> 10)"
| "atom_match ADigit c = isdigit c"
| "atom_match (AClass items) c = list_ex (\<lambda>i. citem_match i c) items"

fun str_ends :: "string \<Rightarrow> pos \<Rightarrow> pos list" where
  "str_ends [] p = [p]"
| "str_ends (a # as) (p, []) = []"
| "str_ends (a # as) (p, c # cs) =
     (if lower_char c = lower_char a then str_ends as (Some c, cs) else [])"

fun rep_ends :: "nat \<Rightarrow> atom \<Rightarrow> pos \<Rightarrow> pos list" where
  "rep_ends n a (p, []) = (if n = 0 then [(p, [])] else [])"
| "rep_ends n a (p, c # cs) =
     (if n = 0 then [(p, c # cs)] else []) @
     (if atom_match a c then rep_ends (n - 1) a (Some c, cs) else [])"

definition word_before :: "pos \<Rightarrow> bool" where
  "word_before p = (case fst p of None \<Rightarrow> False | Some c \<Rightarrow> isword c)"

definition word_after :: "pos \<Rightarrow> bool" where
  "word_after p = (case snd p of [] \<Rightarrow> False | c # cs \<Rightarrow> isword c)"

fun ends :: "rx \<Rightarrow> pos \<Rightarrow> pos list" where
  "ends (Str w) p = str_ends w p"
| "ends (One a) (p, []) = []"
| "ends (One a) (p, c # cs) = (if atom_match a c then [(Some c, cs)] else [])"
| "ends (Rep n a) p = rep_ends n a p"
| "ends WordB p = (if word_before p \<noteq> word_after p then [p] else [])"
| "ends Bol p = (if fst p = None then [p] else [])"
| "ends Eol p = (if snd p = [] \<or> snd p = [CHR 0x0A] then [p] else [])"
| "ends (Seq r1 r2) p = concat (map (ends r2) (ends r1 p))"
| "ends (Alt r1 r2) p = ends r1 p @ ends r2 p"
| "ends (Opt r) p = ends r p @ [p]"

fun search_from :: "rx \<Rightarrow> pos \<Rightarrow> bool" where
  "search_from r (p, []) = (ends r (p, []) \<noteq> [])"
| "search_from r (p, c # cs) = (ends r (p, c # cs) \<noteq> [] \<or> search_from r (Some c, cs))"

definition re_search :: "rx \<Rightarrow> string \<Rightarrow> bool" where
  "re_search r s = search_from r (None, s)"

text \<open>Shorthands for writing the patterns of the table.\<close>

fun seqs :: "rx list \<Rightarrow> rx" where
  "seqs [] = Str []"
| "seqs [r] = r"
| "seqs (r # rs) = Seq r (seqs rs)"

fun alts :: "rx list \<Rightarrow> rx" where
  "alts [] = One (AClass [])"
| "alts [r] = r"
| "alts (r # rs) = Alt r (alts rs)"

definition any_of :: "string list \<Rightarrow> rx" where
  "any_of ws = alts (map Str ws)"

abbreviation (input) dotstar :: rx where
  "dotstar \<equiv> Rep 0 ADot"


section \<open>The rule table of \<open>intent_detector.py\<close>\<close>

abbreviation (input) c_cedilla :: char where "c_cedilla \<equiv> CHR 0xE7"
abbreviation (input) e_grave :: char where "e_grave \<equiv> CHR 0xE8"
abbreviation (input) e_acute :: char where "e_acute \<equiv> CHR 0xE9"
abbreviation (input) e_circ :: char where "e_circ \<equiv> CHR 0xEA"
abbreviation (input) u_grave :: char where "u_grave \<equiv> CHR 0xF9"
abbreviation (input) apostrophe :: char where "apostrophe \<equiv> CHR 0x27"

text \<open>A rule is \<open>(pattern, rule_name, confidence)\<close>; a group is an intent with its rules.\<close>

type_synonym rule = "rx \<times> string \<times> real"
type_synonym rule_table = "(string \<times> rule list) list"

definition help_rules :: "rule list" where
  "help_rules =
   [(seqs [WordB, any_of [''help'', ''assist'', ''what can'', ''how to'', ''guide'', ''aide'',
       ''comment''], WordB], ''help_keyword'', 0.95),
    (seqs [Bol, any_of [''hi'', ''hello'', ''hey'', ''bonjour'', ''salam'', ''salut''],
       Alt (One (AClass [CSpace, CChar CHR ''!''])) Eol], ''greeting'', 0.95),
    (seqs [WordB,
       alts [seqs [Str ''what '', any_of [''can'', ''do''], Str '' you''],
             seqs [Str ''qu'', One (AClass [CChar apostrophe, CChar apostrophe, CChar apostrophe]),
                   Str ''est-ce que tu''],
             Str ''que peux-tu''],
       WordB], ''capability_query'', 0.90)]"

definition blockchain_audit_rules :: "rule list" where
  "blockchain_audit_rules =
   [(seqs [WordB, any_of [''blockchain'', ''proof'', ''verify'', ''audit'', ''trace'', ''prouv'',
       ''v'' @ [e_acute] @ ''rif''], WordB, dotstar, WordB,
       any_of [''booking'', ''reservation'', ''ref'', ''transaction''], WordB],
     ''blockchain_booking'', 0.90),
    (seqs [WordB, any_of [''prove'', ''verify'', ''audit'', ''trace'', ''prouv'',
       ''v'' @ [e_acute] @ ''rif''], WordB], ''audit_keyword'', 0.85)]"

definition operator_analytics_rules :: "rule list" where
  "operator_analytics_rules =
   [(seqs [WordB, any_of [''operator'', ''op'' @ [e_acute] @ ''rateur''], dotstar, WordB,
       any_of [''analytics'', ''performance'', ''analyse'', ''aper'' @ [c_cedilla] @ ''u'',
         ''overview''], WordB], ''operator_analytics_explicit'', 0.92),
    (seqs [WordB, any_of [''ai overview'', ''aper'' @ [c_cedilla] @ ''u ia'', ''business analyst'',
       ''ba report''], WordB], ''ai_overview'', 0.90),
    (seqs [WordB, any_of [''management score'', ''planning quality'', ''operator behavior''],
       WordB], ''operator_metrics'', 0.88),
    (seqs [WordB, any_of [''forecast'', ''pr'' @ [e_acute] @ ''vision'', ''predict''], dotstar,
       WordB, any_of [''month'', ''mois'', ''throughput'', ''capacity''], WordB],
     ''forecast_request'', 0.85)]"

definition passage_history_rules :: "rule list" where
  "passage_history_rules =
   [(seqs [WordB, any_of [''passage'', ''entry'', ''entries'', ''truck'', ''vehicle'', ''camion'',
       ''v'' @ [e_acute] @ ''hicule''], dotstar, WordB,
       any_of [''history'', ''yesterday'', ''past'', ''previous'', ''historique'', ''hier'',
         ''pass'' @ [e_acute], ''pr'' @ [e_acute] @ ''c'' @ [e_acute] @ ''dent''], WordB],
     ''passage_history_explicit'', 0.90),
    (seqs [WordB, any_of [''show'', ''list'', ''get'', ''afficher'', ''lister''], dotstar, WordB,
       any_of [''passage'', ''entry'', ''truck'', ''camion''], WordB], ''show_passage'', 0.85),
    (seqs [WordB, Str ''yesterday'', dotstar, WordB,
       any_of [''passage'', ''truck'', ''entry'', ''camion''], WordB], ''yesterday_passage'', 0.88),
    (seqs [WordB, any_of [''hier'', ''yesterday''], dotstar, WordB,
       any_of [''passage'', ''entr'' @ [e_acute] @ ''e'', ''camion''], WordB],
     ''french_yesterday_passage'', 0.88)]"

definition slot_recommendation_rules :: "rule list" where
  "slot_recommendation_rules =
   [(seqs [WordB, any_of [''recommend'', ''suggest'', ''best'', ''optimal'', ''conseiller'',
       ''sugg'' @ [e_acute] @ ''rer'', ''meilleur''], WordB, dotstar, WordB,
       any_of [''slot'', ''time'', ''cr'' @ [e_acute] @ ''neau'', ''heure''], WordB],
     ''recommend_slot_explicit'', 0.92),
    (seqs [WordB, any_of [''which'', ''what'', ''quel''], dotstar, WordB,
       any_of [''slot'', ''time'', ''cr'' @ [e_acute] @ ''neau''], dotstar, WordB,
       any_of [''best'', ''better'', ''recommend'', ''meilleur'', ''conseill'' @ [e_acute]], WordB],
     ''which_best_slot'', 0.90),
    (seqs [WordB, any_of [''alternative'', ''other'', ''autre''], dotstar, WordB,
       any_of [''slot'', ''time'', ''cr'' @ [e_acute] @ ''neau''], WordB],
     ''alternative_slot'', 0.85)]"

definition slot_availability_rules :: "rule list" where
  "slot_availability_rules =
   [(seqs [WordB, any_of [''available'', ''availability'', ''free'', ''open'', ''disponible'',
       ''disponibilit'' @ [e_acute], ''libre'', ''ouvert''], dotstar, WordB,
       any_of [''slot'', ''time'', ''appointment'', ''cr'' @ [e_acute] @ ''neau'', ''heure'',
         ''rendez-vous''], WordB], ''slot_availability_explicit'', 0.90),
    (seqs [WordB, any_of [''slot'', ''time'', ''appointment'', ''cr'' @ [e_acute] @ ''neau'',
       ''heure''], dotstar, WordB,
       any_of [''available'', ''free'', ''open'', ''disponible'', ''libre''], WordB],
     ''slot_available_reversed'', 0.90),
    (seqs [WordB, any_of [''book'', ''reserve'', ''schedule'', ''r'' @ [e_acute] @ ''server'',
       ''planifier''], dotstar, WordB,
       any_of [''slot'', ''time'', ''cr'' @ [e_acute] @ ''neau'', ''heure''], WordB],
     ''book_slot'', 0.85),
    (seqs [WordB, any_of [''check'', ''voir'', ''v'' @ [e_acute] @ ''rifier''], dotstar, WordB,
       any_of [''availability'', ''disponibilit'' @ [e_acute]], WordB],
     ''check_availability'', 0.82)]"

definition booking_status_rules :: "rule list" where
  "booking_status_rules =
   [(seqs [WordB, any_of [''status'', ''track'', ''where'', ''check'', ''find'', ''locate'',
       ''statut'', ''suivre'', ''o'' @ [u_grave], ''v'' @ [e_acute] @ ''rifier'', ''trouver'',
       ''localiser''], dotstar, WordB,
       any_of [''booking'', ''reservation'', ''ref'', ''reference'',
         ''r'' @ [e_acute] @ ''servation'', ''r'' @ [e_acute] @ ''f'' @ [e_acute] @ ''rence''],
       WordB], ''status_booking_explicit'', 0.90),
    (seqs [WordB, any_of [''booking'', ''reservation'', ''ref'', ''reference'',
       ''r'' @ [e_acute] @ ''servation''], dotstar, WordB,
       any_of [''status'', ''track'', ''where'', ''check'', ''statut'', ''suivre'',
         ''o'' @ [u_grave]], WordB], ''booking_status_reversed'', 0.90),
    (seqs [WordB, any_of [''REF'', ''ref''],
       Opt (One (AClass [CChar CHR ''-'', CSpace])), Rep 3 ADigit, WordB],
     ''booking_ref_pattern'', 0.85),
    (seqs [WordB, any_of [''where is'', ''o'' @ [u_grave] @ '' est'', ''quand'', ''when''], dotstar,
       WordB, any_of [''booking'', ''reservation'', ''my'', ''ma'', ''mon''], WordB],
     ''where_booking'', 0.82)]"

definition smalltalk_rules :: "rule list" where
  "smalltalk_rules =
   [(seqs [Bol, any_of [''ok'', ''okay'', ''d'' @ [apostrophe] @ ''accord'', ''merci'', ''thanks'',
       ''thank you'', ''oui'', ''yes'', ''non'', ''no''],
       Alt (One (AClass [CSpace, CChar CHR ''!'', CChar CHR ''.''])) Eol],
     ''acknowledgment'', 0.70),
    (seqs [Bol, any_of [''good'', ''bien'', ''bon''],
       Alt (One (AClass [CSpace, CChar CHR ''!'', CChar CHR ''.''])) Eol],
     ''positive_short'', 0.65),
    (seqs [WordB, any_of [''how are you'', ''comment '' @ [c_cedilla] @ ''a va'',
       [c_cedilla] @ ''a va''], WordB], ''how_are_you'', 0.75)]"

text \<open>The dictionary \<open>INTENT_PATTERNS\<close>, in its insertion order.\<close>

definition INTENT_PATTERNS :: rule_table where
  "INTENT_PATTERNS =
   [(''help'', help_rules),
    (''blockchain_audit'', blockchain_audit_rules),
    (''operator_analytics_overview'', operator_analytics_rules),
    (''passage_history'', passage_history_rules),
    (''slot_recommendation'', slot_recommendation_rules),
    (''slot_availability'', slot_availability_rules),
    (''booking_status'', booking_status_rules),
    (''smalltalk'', smalltalk_rules)]"

text \<open>The pattern of the follow-up markers in \<open>detect_intent\<close>.\<close>

definition follow_up_pattern :: rx where
  "follow_up_pattern =
   seqs [WordB, any_of [''and'', ''what about'', ''then'', ''also'', ''too'', ''same'',
     ''yesterday'', ''tomorrow'', ''today'', ''next'', ''previous'', ''et'', ''puis'', ''aussi'',
     ''m'' @ [e_circ] @ ''me'', ''hier'', ''demain'', ''aujourd'' @ [apostrophe] @ ''hui''], WordB]"

section \<open>\<open>detect_intent\<close>\<close>

text \<open>
  Exceptions are values. \<open>detect_intent\<close> has no \<open>try\<close>; the only operation of it
  that can raise on a history of the declared type is the call of \<open>.get\<close> on a
  \<open>metadata\<close> value that is not a dictionary.
\<close>

datatype error = AttributeError | Exception string | HTTPException nat string

record IntentResult =
  intent :: string
  confidence :: real
  reasoning :: "string list"
  entities_hint :: "(string \<times> string list) list"

text \<open>
  A history entry, as far as \<open>_get_last_intent\<close> reads it: whether it is a dictionary,
  its \<open>intent\<close> key (\<open>None\<close> when the key is absent or holds \<open>None\<close>) and its
  \<open>metadata\<close> key: absent, a dictionary (given by what its \<open>intent\<close> key holds), or
  some value that is not a dictionary.
\<close>

datatype metadata = NoMetadata | MetadataDict "string option" | MetadataOther

datatype message = Dict (msg_intent: "string option") (msg_metadata: metadata) | NotDict

definition truthy :: "string option \<Rightarrow> bool" where
  "truthy v = (case v of None \<Rightarrow> False | Some s \<Rightarrow> s \<noteq> [])"

definition metadata_intent :: "metadata \<Rightarrow> error + string option" where
  "metadata_intent md =
     (case md of NoMetadata \<Rightarrow> Inr None | MetadataDict v \<Rightarrow> Inr v | MetadataOther \<Rightarrow> Inl AttributeError)"

text \<open>\<open>msg.get("intent") or msg.get("metadata", {}).get("intent")\<close>\<close>

definition recorded_intent :: "string option \<Rightarrow> metadata \<Rightarrow> error + string option" where
  "recorded_intent i md = (if truthy i then Inr i else metadata_intent md)"

definition generic_intents :: "string list" where
  "generic_intents = [''unknown'', ''help'', ''smalltalk'', ''forbidden'', ''not_implemented'']"

text \<open>The loop of \<open>_get_last_intent\<close> over \<open>reversed(history)\<close>.\<close>

fun scan_history :: "message list \<Rightarrow> error + string option" where
  "scan_history [] = Inr None"
| "scan_history (NotDict # ms) = scan_history ms"
| "scan_history (Dict i md # ms) =
     (case recorded_intent i md of
        Inl e \<Rightarrow> Inl e
      | Inr v \<Rightarrow> if truthy v \<and> the v \<notin> set generic_intents then Inr v else scan_history ms)"

definition get_last_intent :: "message list \<Rightarrow> error + string option" where
  "get_last_intent history = (if history = [] then Inr None else scan_history (rev history))"

definition get_entity_hints :: "string \<Rightarrow> (string \<times> string list) list" where
  "get_entity_hints i =
    (if i = ''booking_status'' then [(''expected'', [''booking_ref'']), (''optional'', [''date''])]
     else if i = ''slot_availability''
       then [(''expected'', [''terminal'', ''date'']), (''optional'', [''gate''])]
     else if i = ''slot_recommendation''
       then [(''expected'', [''terminal'', ''date'']),
             (''optional'', [''gate'', ''carrier_id'', ''requested_time''])]
     else if i = ''passage_history''
       then [(''expected'', [''date'']), (''optional'', [''terminal'', ''gate''])]
     else if i = ''blockchain_audit'' then [(''expected'', [''booking_ref'']), (''optional'', [])]
     else if i = ''operator_analytics_overview''
       then [(''expected'', [''operator_id'']), (''optional'', [''terminal'', ''range_days'', ''bucket''])]
     else [(''expected'', []), (''optional'', [])])"

text \<open>
  The inner loop over the rules of one group: \<open>intent_reasons\<close> and
  \<open>intent_confidence\<close> are the accumulators, started at \<open>[]\<close> and \<open>0.0\<close>.
\<close>

fun scan_rules :: "string \<Rightarrow> rule list \<Rightarrow> string list \<times> real \<Rightarrow> string list \<times> real" where
  "scan_rules m [] acc = acc"
| "scan_rules m ((pattern, rule_name, c) # rest) (reasons, conf) =
     scan_rules m rest
       (if re_search pattern m then (reasons @ [rule_name], max conf c) else (reasons, conf))"

type_synonym match = "string \<times> real \<times> string list"

text \<open>The outer loop over the groups, which appends to \<open>all_matches\<close>.\<close>

fun collect_matches :: "rule_table \<Rightarrow> string \<Rightarrow> match list" where
  "collect_matches [] m = []"
| "collect_matches ((i, patterns) # rest) m =
     (case scan_rules m patterns ([], 0) of
        (reasons, conf) \<Rightarrow>
          (if reasons \<noteq> [] then [(i, conf, reasons)] else []) @ collect_matches rest m)"

text \<open>
  \<open>all_matches.sort(key=lambda x: x[1], reverse=True)\<close>: Python's sort is stable, also
  with \<open>reverse=True\<close>, so entries of equal confidence keep the order of the table. A
  stable ascending sort on the negated key is the same list.
\<close>

definition match_conf :: "match \<Rightarrow> real" where
  "match_conf x = fst (snd x)"

definition sort_matches :: "match list \<Rightarrow> match list" where
  "sort_matches ms = sort_key (\<lambda>x. - match_conf x) ms"

definition empty_message_result :: IntentResult where
  "empty_message_result =
     \<lparr>intent = ''unknown'', confidence = 1.0, reasoning = [''empty_message''], entities_hint = []\<rparr>"

definition unknown_result :: IntentResult where
  "unknown_result =
     \<lparr>intent = ''unknown'', confidence = 0.5, reasoning = [''no_pattern_matched''],
      entities_hint = []\<rparr>"

definition follow_up_result :: "string \<Rightarrow> IntentResult" where
  "follow_up_result last_intent =
     \<lparr>intent = last_intent, confidence = 0.70,
      reasoning = [''follow_up_pattern'', ''last_intent:'' @ last_intent],
      entities_hint = get_entity_hints last_intent\<rparr>"

definition match_result :: "match \<Rightarrow> IntentResult" where
  "match_result x =
     (case x of (i, c, reasons) \<Rightarrow>
        \<lparr>intent = i, confidence = c, reasoning = reasons, entities_hint = get_entity_hints i\<rparr>)"

text \<open>The follow-up part of \<open>detect_intent\<close>, reached when no rule matched.\<close>

definition follow_up :: "string \<Rightarrow> message list \<Rightarrow> error + IntentResult" where
  "follow_up message_lower history =
     (if history \<noteq> [] then
        (let is_short = (length (split message_lower) \<le> 4);
             has_follow_up_keyword = re_search follow_up_pattern message_lower
         in if is_short \<or> has_follow_up_keyword then
              (case get_last_intent history of
                 Inl e \<Rightarrow> Inl e
               | Inr last_intent \<Rightarrow>
                   if truthy last_intent \<and>
                      the last_intent \<notin> set [''unknown'', ''help'', ''smalltalk'']
                   then Inr (follow_up_result (the last_intent))
                   else Inr unknown_result)
            else Inr unknown_result)
      else Inr unknown_result)"

text \<open>
  \<open>detect_intent\<close> reads the module-level table \<open>INTENT_PATTERNS\<close>;
  \<open>detect_intent_with\<close> is its body with the table as an argument.
\<close>

definition detect_intent_with :: "rule_table \<Rightarrow> string \<Rightarrow> message list \<Rightarrow> error + IntentResult" where
  "detect_intent_with table message history =
     (if message = [] \<or> strip message = [] then Inr empty_message_result
      else
        (let message_lower = strip (lower message) in
         case sort_matches (collect_matches table message_lower) of
           x # _ \<Rightarrow> Inr (match_result x)
         | [] \<Rightarrow> follow_up message_lower history))"

definition detect_intent :: "string \<Rightarrow> message list \<Rightarrow> error + IntentResult" where
  "detect_intent message history = detect_intent_with INTENT_PATTERNS message history"

text \<open>
  The effects of a call of \<open>detect_intent\<close> on the module: the table is read, and
  \<open>logger.debug\<close> writes one line when a rule matched. \<open>module_state\<close> holds the
  table and the lines logged so far.
\<close>

record module_state =
  patterns :: rule_table
  debug_log :: "match list"

definition debug_lines :: "rule_table \<Rightarrow> string \<Rightarrow> match list" where
  "debug_lines table message =
     (if message = [] \<or> strip message = [] then []
      else case sort_matches (collect_matches table (strip (lower message))) of
             x # _ \<Rightarrow> [x] | [] \<Rightarrow> [])"

definition detect_intent_call ::
    "module_state \<Rightarrow> string \<Rightarrow> message list \<Rightarrow> (error + IntentResult) \<times> module_state" where
  "detect_intent_call st message history =
     (detect_intent_with (patterns st) message history,
      st\<lparr>debug_log := debug_log st @ debug_lines (patterns st) message\<rparr>)"

section \<open>The Gemini adapter: \<open>llm_provider.py\<close> and \<open>intent_classifier.py\<close>\<close>

text \<open>
  The external service is outside the program. One call of \<open>model.generate_content\<close>
  under \<open>asyncio.wait_for\<close> either returns a text in time, or runs into the timeout,
  or raises another exception (with its message). \<open>svc k\<close> is the outcome of the
  \<open>k\<close>-th call made to the service, and the counter of calls is threaded through.
\<close>

datatype llm_outcome = Completed string | TimedOut | Failed string

type_synonym llm_service = "nat \<Rightarrow> llm_outcome"

definition llm_complete :: "llm_service \<Rightarrow> nat \<Rightarrow> (error + string) \<times> nat" where
  "llm_complete svc n =
     (case svc n of
        Completed text \<Rightarrow> (Inr text, n + 1)
      | TimedOut \<Rightarrow> (Inl (Exception ''LLM request timed out''), n + 1)
      | Failed e \<Rightarrow>
          (case svc (n + 1) of
             Completed text \<Rightarrow> (Inr text, n + 2)
           | TimedOut \<Rightarrow> (Inl (Exception (''LLM request failed: '' @ e)), n + 2)
           | Failed e2 \<Rightarrow> (Inl (Exception (''LLM request failed: '' @ e)), n + 2)))"

text \<open>
  JSON values as \<open>json.loads\<close> returns them; an object is a dictionary, kept as an
  association list in insertion order. Numbers are reals.
\<close>

datatype json =
    JNull | JBool bool | JNum real | JStr string | JArr "json list" | JObj "(string \<times> json) list"

type_synonym dict = "(string \<times> json) list"

text \<open>\<open>json.loads\<close> is the library's: \<open>None\<close> stands for \<open>JSONDecodeError\<close>.\<close>

type_synonym json_decoder = "string \<Rightarrow> json option"

fun split_on :: "char \<Rightarrow> string \<Rightarrow> string \<Rightarrow> string list" where
  "split_on sep cur [] = [cur]"
| "split_on sep cur (c # cs) =
     (if c = sep then cur # split_on sep [] cs else split_on sep (cur @ [c]) cs)"

fun join :: "string \<Rightarrow> string list \<Rightarrow> string" where
  "join sep [] = []"
| "join sep [x] = x"
| "join sep (x # xs) = x @ sep @ join sep xs"

definition newline :: char where
  "newline = CHR 0x0A"

text \<open>\<open>lines = response.split("\n"); response = "\n".join(lines[1:-1])\<close>\<close>

definition strip_code_block :: "string \<Rightarrow> string" where
  "strip_code_block response =
     (if startswith response ''```''
      then join [newline] (butlast (tl (split_on newline [] response)))
      else response)"

definition error_result :: dict where
  "error_result = [(''intent'', JStr ''unknown''), (''entities'', JObj []), (''confidence'', JNum 0.0)]"

definition fallback_intent_extraction :: "string \<Rightarrow> dict" where
  "fallback_intent_extraction response =
     (let response_lower = lower response;
          i = (if contains response_lower ''booking_status'' \<or> contains response_lower ''status''
                 then ''booking_status''
               else if contains response_lower ''booking_create'' \<or> contains response_lower ''create''
                       \<or> contains response_lower ''book''
                 then ''booking_create''
               else if contains response_lower ''slot_availability''
                       \<or> contains response_lower ''availability''
                 then ''slot_availability''
               else if contains response_lower ''passage_history'' \<or> contains response_lower ''passage''
                 then ''passage_history''
               else if contains response_lower ''blockchain'' \<or> contains response_lower ''audit''
                 then ''blockchain_audit''
               else if contains response_lower ''help'' \<or> contains response_lower ''greeting''
                 then ''help''
               else ''unknown'')
      in [(''intent'', JStr i), (''entities'', JObj []), (''confidence'', JNum 0.3)])"

definition valid_intents :: "string list" where
  "valid_intents = [''booking_status'', ''booking_create'', ''slot_availability'',
     ''passage_history'', ''blockchain_audit'', ''help'', ''unknown'']"

definition set_default :: "string \<Rightarrow> json \<Rightarrow> dict \<Rightarrow> dict" where
  "set_default k v d = (if map_of d k = None then AList.update k v d else d)"

text \<open>
  The body of \<open>_parse_intent_response\<close> after \<open>json.loads\<close> has returned. A value
  that is not a dictionary ends in the handler \<open>except Exception\<close> (by \<open>ValueError\<close>
  or \<open>TypeError\<close>), as does an \<open>intent\<close> that is a list or a dictionary, which
  cannot be looked up in a set.
\<close>

definition validate_parsed :: "json \<Rightarrow> dict" where
  "validate_parsed v =
     (case v of
        JObj d \<Rightarrow>
          (case map_of d ''intent'' of
             None \<Rightarrow> error_result
           | Some i \<Rightarrow>
               (let result = set_default ''confidence'' (JNum 0.5) (set_default ''entities'' (JObj []) d)
                in case i of
                     JStr name \<Rightarrow>
                       if name \<in> set valid_intents then result
                       else AList.update ''intent'' (JStr ''unknown'') result
                   | JArr xs \<Rightarrow> error_result
                   | JObj kvs \<Rightarrow> error_result
                   | _ \<Rightarrow> AList.update ''intent'' (JStr ''unknown'') result))
      | _ \<Rightarrow> error_result)"

definition parse_intent_response :: "json_decoder \<Rightarrow> string \<Rightarrow> dict" where
  "parse_intent_response json_loads response =
     (let response' = strip_code_block (strip response) in
      case json_loads response' of
        None \<Rightarrow> fallback_intent_extraction response'
      | Some v \<Rightarrow> validate_parsed v)"

text \<open>
  \<open>build_intent_prompt\<close> calls \<open>.get\<close> on the last three entries of the history; an
  entry that is not a dictionary raises, inside the \<open>try\<close> of \<open>classify_intent\<close>.
\<close>

definition build_intent_prompt_ok :: "message list \<Rightarrow> bool" where
  "build_intent_prompt_ok history =
     list_all (\<lambda>m. m \<noteq> NotDict) (drop (length history - 3) history)"

text \<open>
  \<open>confidence < settings.intent_confidence_threshold\<close>: defined on numbers (a boolean
  is the integer 0 or 1); any other value raises \<open>TypeError\<close>.
\<close>

definition as_number :: "json \<Rightarrow> real option" where
  "as_number v = (case v of JNum x \<Rightarrow> Some x | JBool b \<Rightarrow> Some (of_bool b) | _ \<Rightarrow> None)"

definition low_confidence_result :: "json \<Rightarrow> dict" where
  "low_confidence_result c = [(''intent'', JStr ''unknown''), (''entities'', JObj []), (''confidence'', c)]"

definition apply_threshold :: "real \<Rightarrow> dict \<Rightarrow> dict" where
  "apply_threshold threshold result =
     (let c = (case map_of result ''confidence'' of None \<Rightarrow> JNum 0.0 | Some v \<Rightarrow> v) in
      case as_number c of
        None \<Rightarrow> error_result
      | Some x \<Rightarrow> if x < threshold then low_confidence_result c else result)"

definition default_intent_confidence_threshold :: real where
  "default_intent_confidence_threshold = 0.45"

definition classify_intent ::
    "real \<Rightarrow> json_decoder \<Rightarrow> llm_service \<Rightarrow> nat \<Rightarrow> message list \<Rightarrow> dict \<times> nat" where
  "classify_intent threshold json_loads svc n history =
     (if \<not> build_intent_prompt_ok history then (error_result, n)
      else case llm_complete svc n of
             (Inl e, n') \<Rightarrow> (error_result, n')
           | (Inr response, n') \<Rightarrow>
               (apply_threshold threshold (parse_intent_response json_loads response), n'))"

section \<open>The Groq adapter: \<open>agno_runtime.py\<close>\<close>

record agno_config =
  AGNO_ENABLED :: bool
  AGNO_PROVIDER :: string
  GROQ_API_KEY :: string
  OPENAI_API_KEY :: string

definition is_agno_enabled :: "agno_config \<Rightarrow> bool" where
  "is_agno_enabled cfg =
     (if \<not> AGNO_ENABLED cfg then False
      else if AGNO_PROVIDER cfg = ''groq'' \<and> GROQ_API_KEY cfg = [] then False
      else if AGNO_PROVIDER cfg = ''openai'' \<and> OPENAI_API_KEY cfg = [] then False
      else True)"

definition pattern_result :: "string \<Rightarrow> real \<Rightarrow> dict" where
  "pattern_result i c = [(''intent'', JStr i), (''entities'', JObj []), (''confidence'', JNum c)]"

definition classify_with_patterns :: "string \<Rightarrow> dict" where
  "classify_with_patterns message =
     (let message_lower = lower message in
      if list_ex (contains message_lower)
           [''help'', ''assist'', ''guide'', ''hi'', ''hello'', ''bonjour'']
        then pattern_result ''help'' 0.95
      else if contains message_lower ''ref''
              \<or> (contains message_lower ''status'' \<and> contains message_lower ''booking'')
        then pattern_result ''booking_status'' 0.90
      else if list_ex (contains message_lower)
                [''book'', ''reserve'', ''create'', ''r'' @ [e_acute] @ ''server'']
        then pattern_result ''booking_create'' 0.85
      else if list_ex (contains message_lower) [''available'', ''slot'', ''free'', ''disponible'']
        then pattern_result ''slot_availability'' 0.85
      else if contains message_lower ''passage'' \<or> contains message_lower ''history''
              \<or> contains message_lower ''historique''
        then pattern_result ''passage_history'' 0.85
      else if contains message_lower ''blockchain'' \<or> contains message_lower ''proof''
              \<or> contains message_lower ''verify''
        then pattern_result ''blockchain_audit'' 0.85
      else if contains message_lower ''carrier''
              \<and> (contains message_lower ''score'' \<or> contains message_lower ''performance'')
        then pattern_result ''carrier_scoring'' 0.85
      else pattern_result ''help'' 0.60)"

text \<open>
  The one await of \<open>client.chat.completions.create\<close> inside
  \<open>asyncio.wait_for(..., timeout=AGNO_TIMEOUT)\<close>: it returns a content, or raises (the
  import of the client library included), or is still pending when the timeout fires.
\<close>

datatype groq_outcome = GroqContent string | GroqRaised | GroqPending

text \<open>\<open>content.split("```")[1]\<close> for a content that starts with the fence.\<close>

fun until_fence :: "string \<Rightarrow> string" where
  "until_fence [] = []"
| "until_fence (c # cs) = (if startswith (c # cs) ''```'' then [] else c # until_fence cs)"

definition unwrap_content :: "string \<Rightarrow> string" where
  "unwrap_content content =
     (if startswith content ''```''
      then (let inner = until_fence (drop 3 content)
            in if startswith inner ''json'' then drop 4 inner else inner)
      else content)"

text \<open>
  \<open>_classify_with_groq\<close> once the content is there. The log line reads
  \<open>result['intent']\<close> and \<open>result['confidence']\<close>, so anything but a dictionary
  with both keys raises and ends in the pattern fallback.
\<close>

definition classify_with_groq :: "json_decoder \<Rightarrow> groq_outcome \<Rightarrow> string \<Rightarrow> dict" where
  "classify_with_groq json_loads outcome message =
     (case outcome of
        GroqContent content \<Rightarrow>
          (case json_loads (unwrap_content (strip content)) of
             Some (JObj d) \<Rightarrow>
               if map_of d ''intent'' \<noteq> None \<and> map_of d ''confidence'' \<noteq> None then d
               else classify_with_patterns message
           | _ \<Rightarrow> classify_with_patterns message)
      | _ \<Rightarrow> classify_with_patterns message)"

definition classify_with_openai :: "string \<Rightarrow> dict" where
  "classify_with_openai message = classify_with_patterns message"

definition runtime_classify_intent ::
    "agno_config \<Rightarrow> json_decoder \<Rightarrow> groq_outcome \<Rightarrow> string \<Rightarrow> error + dict" where
  "runtime_classify_intent cfg json_loads outcome message =
     (if \<not> is_agno_enabled cfg then Inr (classify_with_patterns message)
      else if AGNO_PROVIDER cfg = ''groq'' then
        (case outcome of
           GroqPending \<Rightarrow> Inl (HTTPException 504 ''agno_timeout'')
         | _ \<Rightarrow> Inr (classify_with_groq json_loads outcome message))
      else Inr (classify_with_openai message))"

section \<open>The chat endpoint: \<open>api/chat.py\<close>\<close>

text \<open>
  \<open>str.upper\<close> on the modelled range. The sharp s becomes \<open>SS\<close>. The capitals of
  the micro sign (U+00B5) and of y with diaeresis (U+00FF) are U+039C and U+0178, outside
  the range: the model leaves these two characters as they are, which does not change
  whether the result is one of the role names, since neither form is an ASCII letter.
\<close>

definition upper_char :: "char \<Rightarrow> string" where
  "upper_char c = (let n = cp c in
     if (97 \<le> n \<and> n \<le> 122) \<or> (224 \<le> n \<and> n \<le> 246) \<or> (248 \<le> n \<and> n \<le> 254)
     then [char_of (n - 32)]
     else if n = 223 then ''SS'' else [c])"

definition upper :: "string \<Rightarrow> string" where
  "upper s = concat (map upper_char s)"

definition ALLOWED_ROLES :: "string list" where
  "ALLOWED_ROLES = [''ADMIN'', ''OPERATOR'', ''CARRIER'']"

record ChatRequest =
  req_message :: string
  req_user_id :: int
  req_user_role :: string
  req_conversation_id :: "string option"

text \<open>
  The reply of the endpoint. The fields \<open>data\<close> and \<open>proofs\<close> of the orchestrator's
  result are handed on unchanged and are left out.
\<close>

record ChatResponse =
  resp_conversation_id :: string
  resp_message :: string
  resp_intent :: "string option"

record orchestrator_result =
  orch_message :: "string option"
  orch_intent :: "string option"

text \<open>
  What \<open>create_conversation\<close> of the backend client does: it returns a conversation
  (with the identifier \<open>_extract_conversation_id\<close> finds in it, if any), or raises an
  \<open>HTTPException\<close>, or raises another exception.
\<close>

datatype create_outcome = Created "string option" | CreateHTTPException error | CreateFailed

definition invalid_role_error :: error where
  "invalid_role_error =
     HTTPException 400 ''Invalid user_role. Must be one of: ADMIN, CARRIER, OPERATOR''"

definition obtain_conversation :: "create_outcome \<Rightarrow> string option \<Rightarrow> error + string" where
  "obtain_conversation backend conversation_id =
     (if truthy conversation_id then Inr (the conversation_id)
      else case backend of
             Created cid \<Rightarrow>
               if truthy cid then Inr (the cid)
               else Inl (HTTPException 500 ''backend_invalid_response'')
           | CreateHTTPException e \<Rightarrow> Inl e
           | CreateFailed \<Rightarrow> Inl (HTTPException 503 ''backend_chat_persistence_failed''))"

text \<open>
  \<open>chat\<close>: the role check comes first. \<open>call_orchestrator message role\<close> stands for
  \<open>_call_orchestrator\<close> with the history fetched from the backend and the context;
  saving the two messages is best effort and changes nothing in the reply.
\<close>

definition chat ::
    "create_outcome \<Rightarrow> (string \<Rightarrow> string \<Rightarrow> orchestrator_result) \<Rightarrow> ChatRequest
     \<Rightarrow> error + ChatResponse" where
  "chat backend call_orchestrator request =
     (let role = upper (strip (req_user_role request)) in
      if role \<notin> set ALLOWED_ROLES then Inl invalid_role_error
      else
        (case obtain_conversation backend (req_conversation_id request) of
           Inl e \<Rightarrow> Inl e
         | Inr cid \<Rightarrow>
             (let r = call_orchestrator (req_message request) role in
              Inr \<lparr>resp_conversation_id = cid,
                   resp_message = (case orch_message r of
                                     None \<Rightarrow> ''I could not process your request.''
                                   | Some m \<Rightarrow> m),
                   resp_intent = orch_intent r\<rparr>)))"

section \<open>The access policy\<close>

text \<open>
  Modelled from the spec: the function \<open>authorize(intent, role)\<close> of the Access Policy
  (section 4.5). The orchestrator module that holds it is not among the sources; only its
  tests and its caller \<open>chat\<close> are. The spec's words: a pure lookup in a static table from
  role to allowed intents; \<open>help\<close> and \<open>unknown\<close> are always authorized regardless of
  role; a role that is not in the table is denied everything but these two; the role
  string is upper-cased before the lookup. The table is an argument.
\<close>

definition bypass_intents :: "string list" where
  "bypass_intents = [''help'', ''unknown'']"

definition authorize :: "(string \<times> string list) list \<Rightarrow> string \<Rightarrow> string \<Rightarrow> bool" where
  "authorize policy i role =
     (i \<in> set bypass_intents \<or>
      (case map_of policy (upper role) of None \<Rightarrow> False | Some allowed \<Rightarrow> i \<in> set allowed))"

section \<open>The specification's reading of the classifier\<close>

text \<open>
  Definitions that follow the words of the specification, to be compared with the loops of
  \<open>detect_intent\<close>. For one group: the rules that match, the maximum of their
  confidences and all their names. For the table: the groups with a match, in the order of
  the table.
\<close>

definition rule_name :: "rule \<Rightarrow> string" where
  "rule_name r = fst (snd r)"

definition rule_conf :: "rule \<Rightarrow> real" where
  "rule_conf r = snd (snd r)"

definition matching_rules :: "string \<Rightarrow> rule list \<Rightarrow> rule list" where
  "matching_rules m rules = filter (\<lambda>r. re_search (fst r) m) rules"

definition group_hit :: "string \<Rightarrow> string \<times> rule list \<Rightarrow> match option" where
  "group_hit m g =
     (let hits = matching_rules m (snd g) in
      if hits = [] then None
      else Some (fst g, Max (set (map rule_conf hits)), map rule_name hits))"

definition table_hits :: "rule_table \<Rightarrow> string \<Rightarrow> match list" where
  "table_hits table m = List.map_filter (group_hit m) table"

definition nonneg_table :: "rule_table \<Rightarrow> bool" where
  "nonneg_table table = list_all (\<lambda>g. list_all (\<lambda>r. 0 \<le> rule_conf r) (snd g)) table"

text \<open>
  For the follow-up: the intent an entry records (its \<open>intent\<close> key or, failing that,
  the \<open>intent\<close> key of its \<open>metadata\<close>), the intents that count, and the most
  recent recorded intent that counts. \<open>metadata_ok\<close> holds of an entry whose
  \<open>metadata\<close>, when present, is a dictionary.
\<close>

definition entry_intent :: "message \<Rightarrow> string option" where
  "entry_intent e =
     (case e of
        NotDict \<Rightarrow> None
      | Dict i md \<Rightarrow> if truthy i then i else (case md of MetadataDict v \<Rightarrow> v | _ \<Rightarrow> None))"

definition meaningful :: "string option \<Rightarrow> bool" where
  "meaningful v = (truthy v \<and> the v \<notin> set generic_intents)"

definition metadata_ok :: "message \<Rightarrow> bool" where
  "metadata_ok e = (case e of NotDict \<Rightarrow> True | Dict i md \<Rightarrow> md \<noteq> MetadataOther)"

definition last_meaningful_intent :: "message list \<Rightarrow> string option" where
  "last_meaningful_intent history =
     (case find meaningful (map entry_intent (rev history)) of None \<Rightarrow> None | Some v \<Rightarrow> v)"

text \<open>
  For \<open>_classify_with_patterns\<close>: a lower-cased message that belongs to no keyword
  family, that is, for which every condition of the chain is false.
\<close>

definition no_keyword_family :: "string \<Rightarrow> bool" where
  "no_keyword_family message_lower =
     (\<not> list_ex (contains message_lower)
          [''help'', ''assist'', ''guide'', ''hi'', ''hello'', ''bonjour'', ''ref'', ''book'',
           ''reserve'', ''create'', ''r'' @ [e_acute] @ ''server'', ''available'', ''slot'', ''free'',
           ''disponible'', ''passage'', ''history'', ''historique'', ''blockchain'', ''proof'',
           ''verify'']
      \<and> \<not> (contains message_lower ''status'' \<and> contains message_lower ''booking'')
      \<and> \<not> (contains message_lower ''carrier''
             \<and> (contains message_lower ''score'' \<or> contains message_lower ''performance'')))"

section \<open>Environments of the examples\<close>

text \<open>
  A service whose calls all time out, one whose first call fails and whose later calls
  answer, one that answers a given text; a decoder for texts that are not JSON; two
  configurations of the Groq adapter; an orchestrator that answers a help request; the
  role table that \<open>test_orchestrator_rbac.py\<close> expects; the fresh module state.
\<close>

definition always_timed_out :: llm_service where
  "always_timed_out k = TimedOut"

definition fails_once :: llm_service where
  "fails_once k = (if k = 0 then Failed ''503 Service Unavailable'' else Completed ''{}'')"

definition replies :: "string \<Rightarrow> llm_service" where
  "replies text k = Completed text"

definition not_json :: json_decoder where
  "not_json text = None"

definition disabled_config :: agno_config where
  "disabled_config =
     \<lparr>AGNO_ENABLED = False, AGNO_PROVIDER = ''groq'', GROQ_API_KEY = [], OPENAI_API_KEY = []\<rparr>"

definition groq_config :: agno_config where
  "groq_config =
     \<lparr>AGNO_ENABLED = True, AGNO_PROVIDER = ''groq'', GROQ_API_KEY = ''gsk_key'',
      OPENAI_API_KEY = []\<rparr>"

definition help_orchestrator :: "string \<Rightarrow> string \<Rightarrow> orchestrator_result" where
  "help_orchestrator message role =
     \<lparr>orch_message = Some ''I can help you with bookings and slots.'', orch_intent = Some ''help''\<rparr>"

definition test_policy :: "(string \<times> string list) list" where
  "test_policy =
     [(''ADMIN'', [''booking_status'', ''booking_create'', ''slot_availability'', ''passage_history'',
         ''blockchain_audit'', ''help'']),
      (''OPERATOR'', [''booking_status'', ''booking_create'', ''slot_availability'',
         ''passage_history'', ''blockchain_audit'', ''help'']),
      (''CARRIER'', [''booking_status'', ''booking_create'', ''slot_availability'', ''passage_history'',
         ''help''])]"

definition initial_state :: module_state where
  "initial_state = \<lparr>patterns = INTENT_PATTERNS, debug_log = []\<rparr>"

section \<open>Strings: basic facts\<close>

lemma strip_blank:
  assumes "list_all isspace s"
  shows "strip s = []"
proof -
  have h: "dropWhile isspace s = []"
    using assms by (simp add: list_all_iff)
  show ?thesis
    by (simp add: strip_def lstrip_def rstrip_def h)
qed

lemma isspace_lower_char: "isspace (lower_char c) = isspace c"
  by (auto simp: isspace_def lower_char_def cp_def Let_def)

lemma strip_Nil_iff: "strip s = [] \<longleftrightarrow> list_all isspace s"
proof
  assume "list_all isspace s"
  then show "strip s = []"
    by (rule strip_blank)
next
  assume a: "strip s = []"
  show "list_all isspace s"
  proof (rule ccontr)
    assume "\<not> list_all isspace s"
    then have ne: "dropWhile isspace s \<noteq> []"
      by (simp add: list_all_iff)
    then have "\<not> isspace (hd (dropWhile isspace s))"
      by (rule hd_dropWhile)
    moreover have "hd (dropWhile isspace s) \<in> set (dropWhile isspace s)"
      using ne by simp
    moreover from a have "\<forall>x\<in>set (dropWhile isspace s). isspace x"
      by (simp add: strip_def lstrip_def rstrip_def)
    ultimately show False by blast
  qed
qed

text \<open>Lower-casing keeps a blank message blank.\<close>

lemma strip_lower_blank: "strip s = [] \<Longrightarrow> strip (lower s) = []"
  by (simp add: strip_Nil_iff lower_def list_all_iff isspace_lower_char)

section \<open>The loops of \<open>detect_intent\<close>\<close>

text \<open>The inner loop keeps every matching name and folds \<open>max\<close> over the confidences.\<close>

lemma scan_rules_fold:
  "scan_rules m rules (reasons, conf) =
     (reasons @ map rule_name (matching_rules m rules),
      fold max (map rule_conf (matching_rules m rules)) conf)"
  by (induction rules arbitrary: reasons conf)
     (auto simp: matching_rules_def rule_name_def rule_conf_def max.commute)

lemma fold_max_nonneg:
  assumes "cs \<noteq> []" and "\<forall>c\<in>set cs. (0::real) \<le> c"
  shows "fold max cs 0 = Max (set cs)"
proof -
  have "fold max cs 0 = Max (set (0 # cs))"
    by (simp only: Max.set_eq_fold)
  also have "\<dots> = max 0 (Max (set cs))"
    using assms(1) by simp
  also have "\<dots> = Max (set cs)"
  proof -
    obtain c where "c \<in> set cs"
      using assms(1) by (cases cs) auto
    then have "0 \<le> c" and "c \<le> Max (set cs)"
      using assms(2) by auto
    then show ?thesis by simp
  qed
  finally show ?thesis .
qed

lemma collect_matches_hits:
  "nonneg_table table \<Longrightarrow> collect_matches table m = table_hits table m"
proof (induction table)
  case Nil
  then show ?case
    by (simp add: table_hits_def List.map_filter_simps)
next
  case (Cons g table)
  obtain i rules where g: "g = (i, rules)"
    by (cases g)
  have nn: "\<forall>c\<in>set (map rule_conf (matching_rules m rules)). 0 \<le> c"
    using Cons.prems by (auto simp: nonneg_table_def g list_all_iff matching_rules_def)
  have rest: "collect_matches table m = table_hits table m"
    using Cons by (simp add: nonneg_table_def)
  show ?case
  proof (cases "matching_rules m rules = []")
    case True
    then show ?thesis
      using rest
      by (simp add: g scan_rules_fold table_hits_def List.map_filter_simps group_hit_def)
  next
    case False
    then have "fold max (map rule_conf (matching_rules m rules)) 0
        = Max (set (map rule_conf (matching_rules m rules)))"
      using nn by (intro fold_max_nonneg) auto
    then show ?thesis
      using rest False
      by (simp add: g scan_rules_fold table_hits_def List.map_filter_simps group_hit_def Let_def)
  qed
qed

lemma nonneg_INTENT_PATTERNS: "nonneg_table INTENT_PATTERNS"
  by (simp add: nonneg_table_def INTENT_PATTERNS_def rule_conf_def help_rules_def
      blockchain_audit_rules_def operator_analytics_rules_def passage_history_rules_def
      slot_recommendation_rules_def slot_availability_rules_def booking_status_rules_def
      smalltalk_rules_def)

text \<open>
  The head of a stable sort is the first element of least key: no element has a smaller
  key, and every element before it in the input has a strictly greater one.
\<close>

lemma hd_sort_key:
  "sort_key f xs = y # ys \<Longrightarrow>
   \<exists>i<length xs. xs ! i = y \<and> (\<forall>j<length xs. f y \<le> f (xs ! j)) \<and> (\<forall>j<i. f y < f (xs ! j))"
proof (induction xs arbitrary: y ys)
  case Nil
  then show ?case by simp
next
  case (Cons x xs)
  show ?case
  proof (cases "sort_key f xs")
    case Nil
    then have "xs = []"
      by (metis length_sort list.size(3) length_0_conv)
    with Cons.prems show ?thesis by auto
  next
    case (Cons z zs)
    from Cons.IH [OF Cons] obtain i where i: "i < length xs" "xs ! i = z"
      "\<forall>j<length xs. f z \<le> f (xs ! j)" "\<forall>j<i. f z < f (xs ! j)"
      by blast
    show ?thesis
    proof (cases "f x \<le> f z")
      case True
      then have yx: "y = x"
        using Cons.prems Cons by simp
      have "\<forall>j<length (x # xs). f y \<le> f ((x # xs) ! j)"
      proof (intro allI impI)
        fix j
        assume "j < length (x # xs)"
        then show "f y \<le> f ((x # xs) ! j)"
          using i(3) True yx by (cases j) (auto intro: order_trans)
      qed
      then show ?thesis
        using yx by (intro exI [of _ 0]) simp
    next
      case False
      then have yz: "y = z"
        using Cons.prems Cons by simp
      have a: "\<forall>j<length (x # xs). f y \<le> f ((x # xs) ! j)"
      proof (intro allI impI)
        fix j
        assume "j < length (x # xs)"
        then show "f y \<le> f ((x # xs) ! j)"
          using i(3) False yz by (cases j) auto
      qed
      have b: "\<forall>j<Suc i. f y < f ((x # xs) ! j)"
      proof (intro allI impI)
        fix j
        assume "j < Suc i"
        then show "f y < f ((x # xs) ! j)"
          using i(4) False yz by (cases j) auto
      qed
      show ?thesis
        using i(1,2) a b yz by (intro exI [of _ "Suc i"]) simp
    qed
  qed
qed

lemma sort_matches_Nil: "sort_matches ms = [] \<longleftrightarrow> ms = []"
  by (metis sort_matches_def length_sort length_0_conv)

lemma best_match:
  assumes "ms \<noteq> []"
  shows "\<exists>i<length ms. \<exists>rest. sort_matches ms = ms ! i # rest \<and>
           (\<forall>j<length ms. match_conf (ms ! j) \<le> match_conf (ms ! i)) \<and>
           (\<forall>j<i. match_conf (ms ! j) < match_conf (ms ! i))"
proof -
  obtain y ys where y: "sort_matches ms = y # ys"
    using assms sort_matches_Nil [of ms] by (cases "sort_matches ms") auto
  from hd_sort_key [OF y [unfolded sort_matches_def]]
  obtain i where "i < length ms" "ms ! i = y"
    "\<forall>j<length ms. - match_conf y \<le> - match_conf (ms ! j)"
    "\<forall>j<i. - match_conf y < - match_conf (ms ! j)"
    by blast
  then show ?thesis
    using y by (intro exI [of _ i]) auto
qed

lemma detect_intent_nonblank:
  "strip message \<noteq> [] \<Longrightarrow>
   detect_intent message history =
     (case sort_matches (collect_matches INTENT_PATTERNS (strip (lower message))) of
        x # rest \<Rightarrow> Inr (match_result x)
      | [] \<Rightarrow> follow_up (strip (lower message)) history)"
proof -
  assume ne: "strip message \<noteq> []"
  then have "message \<noteq> []"
    by (auto simp: strip_def lstrip_def rstrip_def)
  with ne show ?thesis
    by (simp add: detect_intent_def detect_intent_with_def Let_def)
qed

section \<open>The follow-up scan\<close>

lemma scan_history_find:
  "list_all metadata_ok ms \<Longrightarrow>
   scan_history ms =
     Inr (case find meaningful (map entry_intent ms) of None \<Rightarrow> None | Some v \<Rightarrow> v)"
proof (induction ms rule: scan_history.induct)
  case 1
  then show ?case by simp
next
  case (2 ms)
  then show ?case
    by (simp add: entry_intent_def meaningful_def truthy_def metadata_ok_def)
next
  case (3 i md ms)
  then show ?case
    by (cases md)
       (auto simp: entry_intent_def meaningful_def metadata_ok_def recorded_intent_def
          metadata_intent_def)
qed

lemma get_last_intent_find:
  "list_all metadata_ok history \<Longrightarrow> get_last_intent history = Inr (last_meaningful_intent history)"
  by (simp add: get_last_intent_def last_meaningful_intent_def scan_history_find)

lemma last_meaningful_props:
  "last_meaningful_intent history = Some i \<Longrightarrow> i \<noteq> [] \<and> i \<notin> set generic_intents"
  by (auto simp: last_meaningful_intent_def meaningful_def truthy_def find_Some_iff
      split: option.splits)

lemma follow_up_eq:
  assumes "list_all metadata_ok history"
  shows "follow_up m history =
     (if history \<noteq> [] \<and> (length (split m) \<le> 4 \<or> re_search follow_up_pattern m) then
        (case last_meaningful_intent history of
           Some i \<Rightarrow> Inr (follow_up_result i)
         | None \<Rightarrow> Inr unknown_result)
      else Inr unknown_result)"
proof (cases "last_meaningful_intent history")
  case None
  then show ?thesis
    by (simp add: follow_up_def get_last_intent_find [OF assms] truthy_def Let_def)
next
  case (Some i)
  from last_meaningful_props [OF Some] have ne: "i \<noteq> []" and "i \<notin> set generic_intents"
    by simp_all
  then have "i \<noteq> ''unknown''" "i \<noteq> ''help''" "i \<noteq> ''smalltalk''"
    by (auto simp: generic_intents_def)
  then show ?thesis
    using Some ne
    by (simp add: follow_up_def get_last_intent_find [OF assms] truthy_def Let_def)
qed

section \<open>Evaluations on concrete messages\<close>

text \<open>No rule of the table matches the empty text.\<close>

lemma matches_empty: "collect_matches INTENT_PATTERNS [] = []"
  by code_simp

lemma strip_book: "strip ''book an available slot'' \<noteq> []"
  by code_simp

lemma matches_book:
  "collect_matches INTENT_PATTERNS (strip (lower ''book an available slot'')) =
     [(''slot_availability'', 0.9, [''slot_availability_explicit'', ''book_slot''])]"
  by code_simp

lemma detect_book:
  "detect_intent ''book an available slot'' history =
     Inr \<lparr>intent = ''slot_availability'', confidence = 0.9,
          reasoning = [''slot_availability_explicit'', ''book_slot''],
          entities_hint = [(''expected'', [''terminal'', ''date'']), (''optional'', [''gate''])]\<rparr>"
  by (simp add: detect_intent_nonblank [OF strip_book] matches_book sort_matches_def
      match_result_def get_entity_hints_def)

lemma matches_verify:
  "collect_matches INTENT_PATTERNS (strip (lower ''verify the booking for the available slot'')) =
     [(''blockchain_audit'', 0.9, [''blockchain_booking'', ''audit_keyword'']),
      (''slot_availability'', 0.9, [''slot_availability_explicit'', ''book_slot''])]"
  by code_simp

lemma strip_and_terminal: "strip ''and terminal A?'' \<noteq> []"
  by code_simp

lemma matches_and_terminal:
  "collect_matches INTENT_PATTERNS (strip (lower ''and terminal A?'')) = []"
  by code_simp

lemma words_and_terminal: "length (split (strip (lower ''and terminal A?''))) = 3"
  by code_simp

lemma no_family_time: "no_keyword_family (lower ''What time is it?'')"
  by code_simp

lemma upper_strip_guest: "upper (strip '' guest '') = ''GUEST''"
  by code_simp

lemma patterns_intent:
  "map_of (classify_with_patterns message) ''intent'' \<noteq> Some (JStr ''unknown'')"
  by (simp add: classify_with_patterns_def pattern_result_def Let_def)

lemma fallback_confidence:
  "map_of (fallback_intent_extraction r) ''confidence'' = Some (JNum 0.3)"
  by (simp add: fallback_intent_extraction_def Let_def)

section \<open>Claim C1: a timeout of the LLM call\<close>

text \<open>
  Claim C1, as stated: when the external LLM call exceeds the timeout, \<open>classify_intent\<close>
  hands a distinct timed-out signal to its caller instead of a default result. Against it:
  with a service that times out, \<open>classify_intent\<close> of \<open>intent_classifier.py\<close>
  returns the dictionary \<open>{intent: unknown, entities: {}, confidence: 0.0}\<close>, after one
  call.
\<close>

theorem classify_intent_timeout_counterexample:
  "classify_intent default_intent_confidence_threshold not_json always_timed_out 0 [] =
     ([(''intent'', JStr ''unknown''), (''entities'', JObj []), (''confidence'', JNum 0)], 1)"
  by (simp add: classify_intent_def build_intent_prompt_ok_def llm_complete_def
      always_timed_out_def error_result_def)

text \<open>
  Claim C1, amended: on a timeout \<open>llm_complete\<close> raises the exception
  \<open>LLM request timed out\<close> after its one call; \<open>classify_intent\<close> of
  \<open>intent_classifier.py\<close> catches it and returns its error result (intent unknown,
  confidence 0.0), so its caller sees no signal; \<open>classify_intent\<close> of
  \<open>agno_runtime.py\<close>, enabled with the Groq provider, raises the HTTP error 504
  \<open>agno_timeout\<close> when its timeout fires.
\<close>

theorem timeout_signals:
  "(svc n = TimedOut \<longrightarrow>
      llm_complete svc n = (Inl (Exception ''LLM request timed out''), n + 1) \<and>
      (build_intent_prompt_ok history \<longrightarrow>
         classify_intent threshold json_loads svc n history = (error_result, n + 1))) \<and>
   (is_agno_enabled cfg \<and> AGNO_PROVIDER cfg = ''groq'' \<longrightarrow>
      runtime_classify_intent cfg json_loads GroqPending message =
        Inl (HTTPException 504 ''agno_timeout''))"
  by (simp add: classify_intent_def llm_complete_def runtime_classify_intent_def)

theorem timeout_signals_witness:
  "always_timed_out 3 = TimedOut \<and> build_intent_prompt_ok [Dict None NoMetadata] \<and>
   is_agno_enabled groq_config \<and> AGNO_PROVIDER groq_config = ''groq'' \<and>
   llm_complete always_timed_out 3 = (Inl (Exception ''LLM request timed out''), 4) \<and>
   classify_intent default_intent_confidence_threshold not_json always_timed_out 3
     [Dict None NoMetadata] = (error_result, 4) \<and>
   runtime_classify_intent groq_config not_json GroqPending ''status of REF123'' =
     Inl (HTTPException 504 ''agno_timeout'')"
proof -
  have a: "always_timed_out 3 = TimedOut"
    by (simp add: always_timed_out_def)
  have b: "build_intent_prompt_ok [Dict None NoMetadata]"
    by (simp add: build_intent_prompt_ok_def)
  have c: "is_agno_enabled groq_config \<and> AGNO_PROVIDER groq_config = ''groq''"
    by (simp add: is_agno_enabled_def groq_config_def)
  show ?thesis
    using a b c
      timeout_signals [of always_timed_out 3 "[Dict None NoMetadata]"
        default_intent_confidence_threshold not_json groq_config "''status of REF123''"]
    by simp
qed

section \<open>Claim C2: a response that is not JSON\<close>

text \<open>
  Claim C2, as stated: on a response that is not JSON, \<open>classify_intent\<close> returns the
  keyword-matched intent with confidence 0.3 under the default threshold 0.45. Against it:
  for the response \<open>The intent is status\<close> it returns the intent \<open>unknown\<close> (with
  confidence 0.3), not \<open>booking_status\<close>.
\<close>

theorem classify_intent_fallback_counterexample:
  "classify_intent default_intent_confidence_threshold not_json
     (replies ''The intent is status'') 0 [] =
     ([(''intent'', JStr ''unknown''), (''entities'', JObj []), (''confidence'', JNum 0.3)], 1)"
  by code_simp

text \<open>
  Claim C2, amended: on a response that \<open>json.loads\<close> rejects,
  \<open>_parse_intent_response\<close> returns the keyword fallback over the stripped response
  text: the keyword-matched intent (\<open>booking_status\<close> when the text contains
  \<open>status\<close>) with the fixed confidence 0.3. \<open>classify_intent\<close> then applies the
  confidence threshold to it: above 0.3 (the default is 0.45) it returns
  \<open>{intent: unknown, entities: {}, confidence: 0.3}\<close>, and it returns the
  keyword-matched result only when the threshold is at most 0.3.
\<close>

theorem fallback_then_threshold:
  assumes "json_loads (strip_code_block (strip response)) = None"
  shows "parse_intent_response json_loads response =
           fallback_intent_extraction (strip_code_block (strip response)) \<and>
         map_of (parse_intent_response json_loads response) ''confidence'' = Some (JNum 0.3) \<and>
         (contains (lower (strip_code_block (strip response))) ''status'' \<longrightarrow>
            map_of (parse_intent_response json_loads response) ''intent'' =
              Some (JStr ''booking_status'')) \<and>
         (svc n = Completed response \<and> build_intent_prompt_ok history \<longrightarrow>
            classify_intent threshold json_loads svc n history =
              (if 0.3 < threshold
               then [(''intent'', JStr ''unknown''), (''entities'', JObj []), (''confidence'', JNum 0.3)]
               else fallback_intent_extraction (strip_code_block (strip response)), n + 1))"
proof -
  have p: "parse_intent_response json_loads response =
           fallback_intent_extraction (strip_code_block (strip response))"
    using assms by (simp add: parse_intent_response_def)
  have i: "contains (lower (strip_code_block (strip response))) ''status'' \<longrightarrow>
      map_of (fallback_intent_extraction (strip_code_block (strip response))) ''intent'' =
        Some (JStr ''booking_status'')"
    by (simp add: fallback_intent_extraction_def Let_def)
  have c: "svc n = Completed response \<and> build_intent_prompt_ok history \<longrightarrow>
      classify_intent threshold json_loads svc n history =
        (if 0.3 < threshold
         then [(''intent'', JStr ''unknown''), (''entities'', JObj []), (''confidence'', JNum 0.3)]
         else fallback_intent_extraction (strip_code_block (strip response)), n + 1)"
    by (simp add: classify_intent_def llm_complete_def p apply_threshold_def
        fallback_confidence as_number_def low_confidence_result_def)
  show ?thesis
    using p i c by (simp add: fallback_confidence)
qed

theorem fallback_then_threshold_witness:
  "not_json (strip_code_block (strip ''The intent is status'')) = None \<and>
   contains (lower (strip_code_block (strip ''The intent is status''))) ''status'' \<and>
   replies ''The intent is status'' 0 = Completed ''The intent is status'' \<and>
   build_intent_prompt_ok [] \<and>
   map_of (parse_intent_response not_json ''The intent is status'') ''intent'' =
     Some (JStr ''booking_status'') \<and>
   map_of (parse_intent_response not_json ''The intent is status'') ''confidence'' =
     Some (JNum 0.3) \<and>
   classify_intent 0.45 not_json (replies ''The intent is status'') 0 [] =
     ([(''intent'', JStr ''unknown''), (''entities'', JObj []), (''confidence'', JNum 0.3)], 1)"
proof -
  have a: "not_json (strip_code_block (strip ''The intent is status'')) = None"
    by (simp add: not_json_def)
  have b: "contains (lower (strip_code_block (strip ''The intent is status''))) ''status''"
    by code_simp
  have c: "replies ''The intent is status'' 0 = Completed ''The intent is status''"
    by (simp add: replies_def)
  have d: "build_intent_prompt_ok []"
    by (simp add: build_intent_prompt_ok_def)
  show ?thesis
    using a b c d
      fallback_then_threshold [where json_loads = not_json
        and response = "''The intent is status''" and svc = "replies ''The intent is status''"
        and n = 0 and history = "[]" and threshold = "0.45", OF a]
    by auto
qed

section \<open>Claim C3: \<open>book an available slot\<close>\<close>

text \<open>
  Claim C3, as stated: for the message \<open>book an available slot\<close>, \<open>detect_intent\<close>
  returns the create intent, not \<open>slot_availability\<close>. Against it: it returns
  \<open>slot_availability\<close>.
\<close>

theorem book_available_slot_counterexample:
  "detect_intent ''book an available slot'' [] =
     Inr \<lparr>intent = ''slot_availability'', confidence = 0.9,
          reasoning = [''slot_availability_explicit'', ''book_slot''],
          entities_hint = [(''expected'', [''terminal'', ''date'']), (''optional'', [''gate''])]\<rparr>"
  by (rule detect_book)

text \<open>
  Claim C3, amended: for the message \<open>book an available slot\<close> and every history,
  \<open>detect_intent\<close> returns \<open>slot_availability\<close> with confidence 0.90 and the
  reasoning \<open>slot_availability_explicit\<close>, \<open>book_slot\<close>: the only group with a
  matching rule is \<open>slot_availability\<close>, whose rule \<open>book_slot\<close> holds the booking
  verbs, and the table \<open>INTENT_PATTERNS\<close> has no group \<open>booking_create\<close>.
\<close>

theorem book_available_slot_is_availability:
  "detect_intent ''book an available slot'' history =
     Inr \<lparr>intent = ''slot_availability'', confidence = 0.9,
          reasoning = [''slot_availability_explicit'', ''book_slot''],
          entities_hint = [(''expected'', [''terminal'', ''date'']), (''optional'', [''gate''])]\<rparr> \<and>
   collect_matches INTENT_PATTERNS (strip (lower ''book an available slot'')) =
     [(''slot_availability'', 0.9, [''slot_availability_explicit'', ''book_slot''])] \<and>
   ''booking_create'' \<notin> set (map fst INTENT_PATTERNS)"
  by (simp add: detect_book matches_book) (simp add: INTENT_PATTERNS_def)

section \<open>Claim C4: the number of external calls\<close>

text \<open>
  Claim C4, as stated: at most one external completion call is issued per classification,
  with no retry. Against it: when the first call fails with an error that is not a
  timeout, \<open>llm_complete\<close> calls the service a second time.
\<close>

theorem llm_complete_retry_counterexample:
  "llm_complete fails_once 0 = (Inr ''{}'', 2)"
  by (simp add: llm_complete_def fails_once_def)

text \<open>
  Claim C4, amended: \<open>llm_complete\<close> issues one external call, and exactly one more
  (its documented retry) when the first call raises an error that is not a timeout; never
  more than two, and a timeout is not retried. \<open>classify_intent\<close> of
  \<open>intent_classifier.py\<close> calls \<open>llm_complete\<close> at most once, and when that raises
  it returns its error result at once.
\<close>

theorem llm_calls_at_most_two:
  "snd (llm_complete svc n) = (case svc n of Failed e \<Rightarrow> n + 2 | _ \<Rightarrow> n + 1) \<and>
   snd (classify_intent threshold json_loads svc n history) =
     (if build_intent_prompt_ok history then snd (llm_complete svc n) else n) \<and>
   snd (classify_intent threshold json_loads svc n history) \<le> n + 2 \<and>
   (\<forall>e. fst (llm_complete svc n) = Inl e \<longrightarrow>
      fst (classify_intent threshold json_loads svc n history) = error_result)"
  by (auto simp: llm_complete_def classify_intent_def
      split: llm_outcome.splits prod.splits sum.splits)

theorem llm_calls_at_most_two_witness:
  "fst (llm_complete always_timed_out 0) = Inl (Exception ''LLM request timed out'') \<and>
   snd (llm_complete always_timed_out 0) = 1 \<and>
   snd (llm_complete fails_once 0) = 2 \<and>
   fst (classify_intent default_intent_confidence_threshold not_json always_timed_out 0 []) =
     error_result"
proof -
  have a: "fst (llm_complete always_timed_out 0) = Inl (Exception ''LLM request timed out'')"
    by (simp add: llm_complete_def always_timed_out_def)
  show ?thesis
    using a
      llm_calls_at_most_two [of always_timed_out 0 default_intent_confidence_threshold not_json "[]"]
      llm_calls_at_most_two [of fails_once 0 default_intent_confidence_threshold not_json "[]"]
    by (simp add: always_timed_out_def fails_once_def)
qed

section \<open>Claim C5: follow-up resolution\<close>

text \<open>
  Claim C5, as stated: the follow-up returns the first recorded intent, from the most
  recent turn backwards, that is not in \<open>{unknown, help, smalltalk}\<close>. Against it: with
  the history \<open>booking_status\<close>, \<open>forbidden\<close> (most recent last) and the short
  message \<open>and terminal A?\<close>, the most recent recorded intent outside that set is
  \<open>forbidden\<close>, and \<open>detect_intent\<close> returns \<open>booking_status\<close>.
\<close>

theorem follow_up_skips_forbidden_counterexample:
  "detect_intent ''and terminal A?''
     [Dict (Some ''booking_status'') NoMetadata, Dict (Some ''forbidden'') NoMetadata] =
     Inr \<lparr>intent = ''booking_status'', confidence = 0.7,
          reasoning = [''follow_up_pattern'', ''last_intent:booking_status''],
          entities_hint = [(''expected'', [''booking_ref'']), (''optional'', [''date''])]\<rparr> \<and>
   ''forbidden'' \<notin> set [''unknown'', ''help'', ''smalltalk'']"
  by (simp add: detect_intent_nonblank [OF strip_and_terminal] matches_and_terminal
      sort_matches_def follow_up_def words_and_terminal get_last_intent_def recorded_intent_def
      truthy_def generic_intents_def follow_up_result_def get_entity_hints_def)

text \<open>
  Claim C5, amended: for a message that is not blank and a history whose \<open>metadata\<close>
  values are dictionaries, \<open>detect_intent\<close> resolves a follow-up only when no rule of
  the table matches, the history is not empty, and the message has at most 4 words or
  contains a follow-up marker. It then takes the most recent recorded intent (the
  \<open>intent\<close> key of a turn or, failing that, of its \<open>metadata\<close>) that is not empty
  and not in \<open>{unknown, help, smalltalk, forbidden, not_implemented}\<close>, and returns it
  with confidence 0.70; if there is none, the result is \<open>unknown\<close> with confidence
  0.5. When a rule matches, the result is the best match, whatever the history.
\<close>

theorem follow_up_resolution:
  assumes "strip message \<noteq> []" and "list_all metadata_ok history"
  shows "detect_intent message history =
     (let m = strip (lower message) in
      if collect_matches INTENT_PATTERNS m \<noteq> []
        then Inr (match_result (hd (sort_matches (collect_matches INTENT_PATTERNS m))))
      else if history \<noteq> [] \<and> (length (split m) \<le> 4 \<or> re_search follow_up_pattern m)
        then (case last_meaningful_intent history of
                Some i \<Rightarrow> Inr (follow_up_result i)
              | None \<Rightarrow> Inr unknown_result)
      else Inr unknown_result)"
proof (cases "collect_matches INTENT_PATTERNS (strip (lower message)) = []")
  case True
  then show ?thesis
    by (simp add: detect_intent_nonblank [OF assms(1)] sort_matches_def
        follow_up_eq [OF assms(2)])
next
  case False
  then obtain x rest where
    "sort_matches (collect_matches INTENT_PATTERNS (strip (lower message))) = x # rest"
    using sort_matches_Nil [of "collect_matches INTENT_PATTERNS (strip (lower message))"]
    by (cases "sort_matches (collect_matches INTENT_PATTERNS (strip (lower message)))") auto
  then show ?thesis
    using False by (simp add: detect_intent_nonblank [OF assms(1)])
qed

theorem follow_up_resolution_witness:
  "strip ''and terminal A?'' \<noteq> [] \<and>
   list_all metadata_ok
     [Dict (Some ''booking_status'') NoMetadata, Dict None (MetadataDict (Some ''forbidden'')),
      NotDict, Dict (Some ''help'') NoMetadata] \<and>
   detect_intent ''and terminal A?''
     [Dict (Some ''booking_status'') NoMetadata, Dict None (MetadataDict (Some ''forbidden'')),
      NotDict, Dict (Some ''help'') NoMetadata] =
     Inr (follow_up_result ''booking_status'')"
proof -
  have a: "list_all metadata_ok
     [Dict (Some ''booking_status'') NoMetadata, Dict None (MetadataDict (Some ''forbidden'')),
      NotDict, Dict (Some ''help'') NoMetadata]"
    by (simp add: metadata_ok_def)
  have b: "last_meaningful_intent
     [Dict (Some ''booking_status'') NoMetadata, Dict None (MetadataDict (Some ''forbidden'')),
      NotDict, Dict (Some ''help'') NoMetadata] = Some ''booking_status''"
    by (simp add: last_meaningful_intent_def entry_intent_def meaningful_def truthy_def
        generic_intents_def)
  show ?thesis
    using a strip_and_terminal follow_up_resolution [OF strip_and_terminal a]
    by (simp add: matches_and_terminal words_and_terminal b)
qed

section \<open>Claim C6: maximum within a group, priority across groups\<close>

text \<open>
  Claim C6: for every text, the matches that \<open>detect_intent\<close> collects are, for each group of \<open>INTENT_PATTERNS\<close> with a matching rule and in the
  order of the table, the group with the maximum confidence among its matching rules and
  the names of all its matching rules; and when there is a match, the result is the entry
  of highest confidence, the first such entry in the order of the table when several
  entries share that confidence.
\<close>

theorem max_within_group_first_across_groups:
  "(let m = strip (lower message); ms = table_hits INTENT_PATTERNS m in
     collect_matches INTENT_PATTERNS m = ms \<and>
     (ms \<noteq> [] \<longrightarrow>
        (\<exists>i<length ms.
           detect_intent message history = Inr (match_result (ms ! i)) \<and>
           (\<forall>j<length ms. match_conf (ms ! j) \<le> match_conf (ms ! i)) \<and>
           (\<forall>j<i. match_conf (ms ! j) < match_conf (ms ! i)))))"
proof -
  let ?m = "strip (lower message)"
  let ?ms = "table_hits INTENT_PATTERNS ?m"
  have c: "collect_matches INTENT_PATTERNS ?m = ?ms"
    by (rule collect_matches_hits [OF nonneg_INTENT_PATTERNS])
  have "\<exists>i<length ?ms.
           detect_intent message history = Inr (match_result (?ms ! i)) \<and>
           (\<forall>j<length ?ms. match_conf (?ms ! j) \<le> match_conf (?ms ! i)) \<and>
           (\<forall>j<i. match_conf (?ms ! j) < match_conf (?ms ! i))"
    if ne: "?ms \<noteq> []"
  proof -
    have nb: "strip message \<noteq> []"
    proof
      assume "strip message = []"
      then have "?m = []"
        by (rule strip_lower_blank)
      with c matches_empty ne show False
        by simp
    qed
    from best_match [OF ne] obtain i rest where i: "i < length ?ms"
      "sort_matches ?ms = ?ms ! i # rest"
      "\<forall>j<length ?ms. match_conf (?ms ! j) \<le> match_conf (?ms ! i)"
      "\<forall>j<i. match_conf (?ms ! j) < match_conf (?ms ! i)"
      by blast
    have "detect_intent message history = Inr (match_result (?ms ! i))"
      by (simp add: detect_intent_nonblank [OF nb] c i(2))
    with i show ?thesis by blast
  qed
  with c show ?thesis
    by (simp add: Let_def)
qed

theorem max_within_group_first_across_groups_witness:
  "table_hits INTENT_PATTERNS (strip (lower ''verify the booking for the available slot'')) =
     [(''blockchain_audit'', 0.9, [''blockchain_booking'', ''audit_keyword'']),
      (''slot_availability'', 0.9, [''slot_availability_explicit'', ''book_slot''])] \<and>
   detect_intent ''verify the booking for the available slot'' [] =
     Inr \<lparr>intent = ''blockchain_audit'', confidence = 0.9,
          reasoning = [''blockchain_booking'', ''audit_keyword''],
          entities_hint = [(''expected'', [''booking_ref'']), (''optional'', [])]\<rparr>"
proof -
  let ?ms = "[(''blockchain_audit'', 0.9, [''blockchain_booking'', ''audit_keyword'']),
      (''slot_availability'', 0.9, [''slot_availability_explicit'', ''book_slot''])] :: match list"
  note claim = max_within_group_first_across_groups
    [of "''verify the booking for the available slot''" "[]", unfolded Let_def]
  from claim have "collect_matches INTENT_PATTERNS
      (strip (lower ''verify the booking for the available slot'')) =
    table_hits INTENT_PATTERNS (strip (lower ''verify the booking for the available slot''))"
    by (rule conjunct1)
  then have t: "table_hits INTENT_PATTERNS
      (strip (lower ''verify the booking for the available slot'')) = ?ms"
    using matches_verify by simp
  from claim have e: "\<exists>i<length ?ms.
           detect_intent ''verify the booking for the available slot'' [] =
             Inr (match_result (?ms ! i)) \<and>
           (\<forall>j<i. match_conf (?ms ! j) < match_conf (?ms ! i))"
    unfolding t by auto
  from e obtain i where i: "i < length ?ms"
    "detect_intent ''verify the booking for the available slot'' [] = Inr (match_result (?ms ! i))"
    "\<forall>j<i. match_conf (?ms ! j) < match_conf (?ms ! i)"
    by blast
  have "i = 0"
  proof (rule ccontr)
    assume "i \<noteq> 0"
    then have "i = 1" using i(1) by simp
    with i(3) have "match_conf (?ms ! 0) < match_conf (?ms ! 1)"
      by simp
    then show False by (simp add: match_conf_def)
  qed
  with i(2) have "detect_intent ''verify the booking for the available slot'' [] =
      Inr (match_result (?ms ! 0))"
    by simp
  then show ?thesis
    using t by (simp add: match_result_def get_entity_hints_def)
qed

section \<open>Claim C7: roles outside the recognized set\<close>

text \<open>
  Claim C7, as stated: a request with an unrecognized role still gets a reply for the
  intents \<open>help\<close> and \<open>unknown\<close> instead of a rejection. Against it: the endpoint
  \<open>chat\<close> rejects the message \<open>help\<close> sent with the role \<open>ANON\<close> with the HTTP
  error 400, before any classification.
\<close>

theorem chat_rejects_unrecognized_role_counterexample:
  "chat (Created (Some ''c1'')) help_orchestrator
     \<lparr>req_message = ''help'', req_user_id = 0, req_user_role = ''ANON'',
      req_conversation_id = None\<rparr> =
     Inl (HTTPException 400 ''Invalid user_role. Must be one of: ADMIN, CARRIER, OPERATOR'')"
  by code_simp

text \<open>
  Claim C7, amended: in the access policy, \<open>help\<close> and \<open>unknown\<close> are authorized for
  every role string, and every other intent is denied for a role that is not in the
  table. The endpoint \<open>chat\<close>, however, rejects every request whose role (stripped and
  upper-cased) is not one of \<open>ADMIN\<close>, \<open>OPERATOR\<close>, \<open>CARRIER\<close> with the HTTP
  error 400 before classification, whatever its message: such a request gets no reply,
  for the bypass intents either.
\<close>

theorem bypass_in_policy_gate_in_chat:
  "authorize policy ''help'' role \<and> authorize policy ''unknown'' role \<and>
   (map_of policy (upper role) = None \<and> i \<notin> set bypass_intents \<longrightarrow>
      \<not> authorize policy i role) \<and>
   (upper (strip (req_user_role request)) \<notin> set ALLOWED_ROLES \<longrightarrow>
      chat backend call_orchestrator request = Inl invalid_role_error)"
  by (simp add: authorize_def bypass_intents_def chat_def)

theorem bypass_in_policy_gate_in_chat_witness:
  "map_of test_policy (upper '' guest '') = None \<and>
   ''blockchain_audit'' \<notin> set bypass_intents \<and>
   upper (strip (req_user_role
     \<lparr>req_message = ''what can you do'', req_user_id = 7, req_user_role = '' guest '',
      req_conversation_id = Some ''c2''\<rparr>)) \<notin> set ALLOWED_ROLES \<and>
   authorize test_policy ''help'' '' guest '' \<and>
   \<not> authorize test_policy ''blockchain_audit'' '' guest '' \<and>
   chat CreateFailed help_orchestrator
     \<lparr>req_message = ''what can you do'', req_user_id = 7, req_user_role = '' guest '',
      req_conversation_id = Some ''c2''\<rparr> = Inl invalid_role_error"
proof -
  have a: "map_of test_policy (upper '' guest '') = None"
    by code_simp
  have b: "''blockchain_audit'' \<notin> set bypass_intents"
    by (simp add: bypass_intents_def)
  have c: "upper (strip (req_user_role
     \<lparr>req_message = ''what can you do'', req_user_id = 7, req_user_role = '' guest '',
      req_conversation_id = Some ''c2''\<rparr>)) \<notin> set ALLOWED_ROLES"
    by (simp add: upper_strip_guest ALLOWED_ROLES_def)
  show ?thesis
    using a b c
      bypass_in_policy_gate_in_chat [of test_policy "'' guest ''" "''blockchain_audit''"
        "\<lparr>req_message = ''what can you do'', req_user_id = 7, req_user_role = '' guest '',
          req_conversation_id = Some ''c2''\<rparr>" CreateFailed help_orchestrator]
    by blast
qed

section \<open>Claim C8: empty and whitespace-only messages\<close>

text \<open>
  Claim C8: for every message that is empty or consists of whitespace only, and every
  history, \<open>detect_intent\<close> returns the result \<open>unknown\<close> with confidence 1.0 (and
  the reasoning \<open>empty_message\<close>); it returns a result, not an exception.
\<close>

theorem blank_message_is_unknown:
  "list_all isspace message \<Longrightarrow>
   detect_intent message history =
     Inr \<lparr>intent = ''unknown'', confidence = 1, reasoning = [''empty_message''],
          entities_hint = []\<rparr>"
  by (simp add: detect_intent_def detect_intent_with_def strip_blank empty_message_result_def)

theorem blank_message_is_unknown_witness:
  "list_all isspace [CHR 0x20, CHR 0x09, CHR 0x0A, CHR 0xA0] \<and>
   detect_intent [CHR 0x20, CHR 0x09, CHR 0x0A, CHR 0xA0]
     [Dict None MetadataOther] =
     Inr \<lparr>intent = ''unknown'', confidence = 1, reasoning = [''empty_message''],
          entities_hint = []\<rparr>"
proof -
  have h: "list_all isspace [CHR 0x20, CHR 0x09, CHR 0x0A, CHR 0xA0]"
    by (simp add: isspace_def cp_def)
  show ?thesis
    using h blank_message_is_unknown [OF h, of "[Dict None MetadataOther]"] by simp
qed

section \<open>Claim C9: determinism\<close>

text \<open>
  Claim C9: a call of \<open>detect_intent\<close> leaves the rule table as it was, and its
  result depends on the message, the history and the table only: a second call with the
  same message and history, made in the state the first call left, returns the same
  result, and so do two calls made in states that have the same table.
\<close>

theorem detect_intent_deterministic:
  "(case detect_intent_call st message history of
      (r1, st1) \<Rightarrow>
        (case detect_intent_call st1 message history of
           (r2, st2) \<Rightarrow> r2 = r1 \<and> patterns st1 = patterns st \<and> patterns st2 = patterns st)) \<and>
   (patterns st' = patterns st \<longrightarrow>
      fst (detect_intent_call st' message history) = fst (detect_intent_call st message history))"
  by (simp add: detect_intent_call_def)

theorem detect_intent_deterministic_witness:
  "patterns (initial_state\<lparr>debug_log := [(''help'', 0.95, [''greeting''])]\<rparr>) =
     patterns initial_state \<and>
   fst (detect_intent_call (initial_state\<lparr>debug_log := [(''help'', 0.95, [''greeting''])]\<rparr>)
          ''book an available slot'' []) =
     fst (detect_intent_call initial_state ''book an available slot'' []) \<and>
   fst (detect_intent_call (snd (detect_intent_call initial_state ''book an available slot'' []))
          ''book an available slot'' []) =
     fst (detect_intent_call initial_state ''book an available slot'' [])"
proof -
  have a: "patterns (initial_state\<lparr>debug_log := [(''help'', 0.95, [''greeting''])]\<rparr>) =
     patterns initial_state"
    by simp
  show ?thesis
    using a
      detect_intent_deterministic [of initial_state "''book an available slot''" "[]"
        "initial_state\<lparr>debug_log := [(''help'', 0.95, [''greeting''])]\<rparr>"]
    by (auto split: prod.splits)
qed

section \<open>Claim C10: the pattern fallback of the Groq adapter\<close>

text \<open>
  Claim C10: \<open>_classify_with_patterns\<close> never returns the intent \<open>unknown\<close>; for a
  message that belongs to no keyword family it returns \<open>help\<close> with confidence 0.6;
  and when the LLM feature is not enabled, \<open>classify_intent\<close> of \<open>agno_runtime.py\<close>
  returns the result of \<open>_classify_with_patterns\<close>, hence never \<open>unknown\<close>.
\<close>

theorem pattern_fallback_never_unknown:
  "map_of (classify_with_patterns message) ''intent'' \<noteq> Some (JStr ''unknown'') \<and>
   (no_keyword_family (lower message) \<longrightarrow>
      classify_with_patterns message =
        [(''intent'', JStr ''help''), (''entities'', JObj []), (''confidence'', JNum 0.6)]) \<and>
   (\<not> is_agno_enabled cfg \<longrightarrow>
      runtime_classify_intent cfg json_loads outcome message =
        Inr (classify_with_patterns message) \<and>
      (\<forall>d. runtime_classify_intent cfg json_loads outcome message = Inr d \<longrightarrow>
           map_of d ''intent'' \<noteq> Some (JStr ''unknown'')))"
proof (intro conjI impI allI)
  show "map_of (classify_with_patterns message) ''intent'' \<noteq> Some (JStr ''unknown'')"
    by (rule patterns_intent)
next
  assume "no_keyword_family (lower message)"
  then show "classify_with_patterns message =
        [(''intent'', JStr ''help''), (''entities'', JObj []), (''confidence'', JNum 0.6)]"
    by (simp add: no_keyword_family_def classify_with_patterns_def pattern_result_def Let_def)
next
  assume "\<not> is_agno_enabled cfg"
  then show "runtime_classify_intent cfg json_loads outcome message =
      Inr (classify_with_patterns message)"
    by (simp add: runtime_classify_intent_def)
next
  fix d
  assume "\<not> is_agno_enabled cfg"
    and "runtime_classify_intent cfg json_loads outcome message = Inr d"
  then have "d = classify_with_patterns message"
    by (simp add: runtime_classify_intent_def)
  then show "map_of d ''intent'' \<noteq> Some (JStr ''unknown'')"
    by (simp add: patterns_intent)
qed

theorem pattern_fallback_never_unknown_witness:
  "no_keyword_family (lower ''What time is it?'') \<and> \<not> is_agno_enabled disabled_config \<and>
   runtime_classify_intent disabled_config not_json GroqRaised ''What time is it?'' =
     Inr [(''intent'', JStr ''help''), (''entities'', JObj []), (''confidence'', JNum 0.6)]"
proof -
  have a: "\<not> is_agno_enabled disabled_config"
    by (simp add: is_agno_enabled_def disabled_config_def)
  show ?thesis
    using a no_family_time
      pattern_fallback_never_unknown [of "''What time is it?''" disabled_config not_json GroqRaised]
    by simp
qed

end
